theory Spec2Isabelle
  imports Main "HOL-Library.Multiset"
begin

section \<open>GOES file discovery (met4450.py)\<close>

text \<open>
  A shallow embedding of the two functions of \<^verbatim>\<open>met4450.py\<close>:
  \<^verbatim>\<open>_goes_file_df\<close> (here \<open>goes_file_df\<close>, since an Isabelle name starts with a
  letter) and \<^verbatim>\<open>find_goes_dataset\<close>. A pandas table is the list of its rows, a
  raised exception is a value \<open>Inl e\<close>, and the effects of a call (the prefixes listed on the
  object store, the lines printed) are threaded through a \<open>world\<close> record.
  Parameters carry a prime (\<open>start'\<close>, \<open>bands'\<close>) where the source's name is also the name of
  a column.
\<close>

subsection \<open>Timestamps\<close>

text \<open>
  A \<^verbatim>\<open>pandas.Timestamp\<close> is a count of nanoseconds since 1970-01-01 00:00; a column of
  dtype \<^verbatim>\<open>datetime64[ns]\<close> holds such counts or \<^verbatim>\<open>NaT\<close>. Comparing NaT with a
  timestamp is false, whatever the comparison.
\<close>

type_synonym timestamp = int

datatype datetime64 = NaT | Timestamp timestamp

definition hour :: int where
  "hour = 3600000000000"

fun ge_dt :: "datetime64 \<Rightarrow> timestamp \<Rightarrow> bool" where
  "ge_dt NaT t = False"
| "ge_dt (Timestamp s) t = (t \<le> s)"

fun le_dt :: "datetime64 \<Rightarrow> timestamp \<Rightarrow> bool" where
  "le_dt NaT t = False"
| "le_dt (Timestamp s) t = (s \<le> t)"

text \<open>\<^verbatim>\<open>f"{start:%Y-%m-%d %H:00}"\<close>: the timestamp cut down to its hour.\<close>

definition floor_hour :: "timestamp \<Rightarrow> timestamp" where
  "floor_hour t = t - t mod hour"

text \<open>\<^verbatim>\<open>pd.date_range(a, b, freq="1h")\<close>: \<open>a, a + 1h, ...\<close> up to \<open>b\<close>; empty when \<open>b < a\<close>.\<close>

definition date_range :: "timestamp \<Rightarrow> timestamp \<Rightarrow> timestamp list" where
  "date_range a b =
     (if b < a then [] else map (\<lambda>k. a + int k * hour) [0 ..< nat ((b - a) div hour) + 1])"

subsection \<open>Strings\<close>

text \<open>
  Python's \<^verbatim>\<open>str.split(sep)\<close> and \<^verbatim>\<open>str.rsplit(sep, n)\<close> for a separator of one
  character, \<^verbatim>\<open>str.startswith\<close>, substring search and \<^verbatim>\<open>str.upper\<close>. Strings are
  byte strings here, so \<open>upper\<close> is the ASCII one.
\<close>

fun str_split :: "char \<Rightarrow> string \<Rightarrow> string list" where
  "str_split sep [] = [[]]"
| "str_split sep (c # cs) =
     (if c = sep then [] # str_split sep cs
      else (case str_split sep cs of [] \<Rightarrow> [[c]] | p # ps \<Rightarrow> (c # p) # ps))"

fun str_join :: "char \<Rightarrow> string list \<Rightarrow> string" where
  "str_join sep [] = []"
| "str_join sep [p] = p"
| "str_join sep (p # q # ps) = p @ sep # str_join sep (q # ps)"

definition str_rsplit :: "char \<Rightarrow> nat \<Rightarrow> string \<Rightarrow> string list" where
  "str_rsplit sep n s =
     (let ps = str_split sep s; k = length ps
      in if k \<le> n + 1 then ps else str_join sep (take (k - n) ps) # drop (k - n) ps)"

definition startswith :: "string \<Rightarrow> string \<Rightarrow> bool" where
  "startswith s p = (take (length p) s = p)"

fun str_contains :: "string \<Rightarrow> string \<Rightarrow> bool" where
  "str_contains [] p = (p = [])"
| "str_contains (c # cs) p = (startswith (c # cs) p \<or> str_contains cs p)"

definition upper_char :: "char \<Rightarrow> char" where
  "upper_char c =
     (case map_of (zip ''abcdefghijklmnopqrstuvwxyz'' ''ABCDEFGHIJKLMNOPQRSTUVWXYZ'') c of
        None \<Rightarrow> c | Some u \<Rightarrow> u)"

definition upper :: "string \<Rightarrow> string" where
  "upper s = map upper_char s"

text \<open>\<^verbatim>\<open>str(n)\<close> for an integer.\<close>

fun str_nat :: "nat \<Rightarrow> string" where
  "str_nat n =
     (if n < 10 then [''0123456789'' ! n]
      else str_nat (n div 10) @ [''0123456789'' ! (n mod 10)])"

declare str_nat.simps [simp del]

definition str_int :: "int \<Rightarrow> string" where
  "str_int i = (if i < 0 then CHR ''-'' # str_nat (nat (- i)) else str_nat (nat i))"

text \<open>
  A cell of the table that \<^verbatim>\<open>.str.split(..., expand=True)\<close> builds: column \<open>i\<close> of a row
  is its \<open>i\<close>-th part, or None where the row has fewer parts or is itself missing.
\<close>

fun cell :: "nat \<Rightarrow> string list option \<Rightarrow> string option" where
  "cell i None = None"
| "cell i (Some ps) = (if i < length ps then Some (ps ! i) else None)"

subsection \<open>Errors, collaborators and effects\<close>

text \<open>The exceptions a call can end with, one constructor per raising place.\<close>

datatype error =
    NoFilesFound \<comment> \<open>ValueError of line 47\<close>
  | SatelliteNotRecognized string \<comment> \<open>ValueError of line 136\<close>
  | ListingFailed \<comment> \<open>whatever \<^verbatim>\<open>fs.ls\<close> raises, line 44\<close>
  | ColumnsMismatch \<comment> \<open>ValueError of the five-column assignment, line 53\<close>
  | MissingColumn \<comment> \<open>KeyError of \<^verbatim>\<open>product_mode[1]\<close>, line 61\<close>
  | ModeNotInt \<comment> \<open>\<^verbatim>\<open>astype(int)\<close> of line 64\<close>
  | DatetimeParse \<comment> \<open>ValueError of \<^verbatim>\<open>pd.to_datetime\<close>, lines 80-82\<close>
  | MaskNA \<comment> \<open>ValueError of a boolean mask with a missing value, line 159\<close>
  | IndexError \<comment> \<open>indexing out of bounds, line 170\<close>

text \<open>
  The key prefix \<^verbatim>\<open>f"{satellite}/{product}/{DATE:%Y/%j/%H/}"\<close> is kept as the three
  values it is formatted from.
\<close>

datatype prefix = Prefix string string timestamp

fun bucket_of :: "prefix \<Rightarrow> string" where
  "bucket_of (Prefix b p d) = b"

text \<open>
  What the code calls and does not define: the listing client (\<^verbatim>\<open>fs.ls(prefix, refresh)\<close>,
  None when it raises), the decoder of one text under a \<^verbatim>\<open>strptime\<close> format (None when
  \<^verbatim>\<open>pd.to_datetime\<close> raises on it) and the conversion of one text by
  \<^verbatim>\<open>astype(int)\<close> (None when it raises). The functions below take them as a parameter.
\<close>

record env =
  fs_ls :: "prefix \<Rightarrow> bool \<Rightarrow> string list option"
  strptime :: "string \<Rightarrow> string \<Rightarrow> datetime64 option"
  astype_int :: "string \<Rightarrow> int option"

record world =
  clock :: timestamp
  listed :: "prefix list"
  stdout :: "string list"

subsection \<open>The table\<close>

datatype band_arg = Band int | Bands "int list"

record abi_columns =
  mode_bands :: string
  mode :: int
  band :: "int option"

text \<open>
  One row. The columns \<^verbatim>\<open>start\<close>, \<^verbatim>\<open>end\<close> and \<^verbatim>\<open>creation\<close> are texts
  (\<open>string option\<close>) until lines 80-82 convert them; \<open>product\<close> and \<open>domain\<close> are
  None while the table has no such column, and \<open>abi\<close> holds the columns that only the
  branch of line 58 creates.
\<close>

record ('t, 'c) file_record =
  file_path :: string
  product_mode :: "string option"
  satellite :: "string option"
  start :: 't
  end_time :: 't
  creation :: 'c
  product :: "string option"
  domain :: "string option"
  abi :: "abi_columns option"

record params =
  attr_satellite :: string
  attr_product :: string
  attr_start :: timestamp
  attr_end :: timestamp
  attr_bands :: "band_arg option"
  attr_refresh :: bool

record ('r, 'a) data_frame =
  rows :: "'r list"
  attrs :: 'a

subsection \<open>Listing: lines 38-48\<close>

text \<open>
  The loop of lines 42-44, one call of the listing client for each hour, in order; an
  exception of the client ends the loop. Each call is recorded in the world.
\<close>

fun list_files ::
  "env \<Rightarrow> string \<Rightarrow> string \<Rightarrow> bool \<Rightarrow> timestamp list \<Rightarrow> string list \<Rightarrow> world
     \<Rightarrow> (error + string list) \<times> world" where
  "list_files e satellite' product' refresh' [] files w = (Inr files, w)"
| "list_files e satellite' product' refresh' (d # ds) files w =
     (let p = Prefix satellite' product' d;
          w1 = w\<lparr>listed := listed w @ [p]\<rparr>
      in case fs_ls e p refresh' of
           None \<Rightarrow> (Inl ListingFailed, w1)
         | Some fs \<Rightarrow> list_files e satellite' product' refresh' ds (files @ fs) w1)"

subsection \<open>Building the table: lines 52-55\<close>

text \<open>
  \<^verbatim>\<open>rsplit("_", n=5)\<close> cuts a name into at most six parts; the table of the parts has as
  many columns as the longest row, and the assignment to five columns raises unless the
  columns 1 to 5 are five, that is unless some name has six parts.
\<close>

type_synonym text_record = "(string option, string option) file_record"
type_synonym time_record = "(datetime64, datetime64) file_record"
type_synonym goes_file = "(timestamp, datetime64) file_record"

definition name_parts :: "string \<Rightarrow> string list option" where
  "name_parts f = Some (str_rsplit CHR ''_'' 5 f)"

definition text_row :: "string \<Rightarrow> text_record" where
  "text_row f =
     \<lparr>file_path = f,
      product_mode = cell 1 (name_parts f),
      satellite = cell 2 (name_parts f),
      start = cell 3 (name_parts f),
      end_time = cell 4 (name_parts f),
      creation = cell 5 (name_parts f),
      product = None,
      domain = None,
      abi = None\<rparr>"

definition build_table :: "string list \<Rightarrow> error + text_record list" where
  "build_table files =
     (if list_ex (\<lambda>f. length (str_rsplit CHR ''_'' 5 f) = 6) files
      then Inr (map text_row files)
      else Inl ColumnsMismatch)"

subsection \<open>The channel columns: lines 58-69\<close>

text \<open>
  One row through lines 59-66: \<open>product_mode\<close> cut at its last \<open>-\<close> into product and
  \<open>mode_bands\<close>, \<open>mode_bands\<close> cut at every \<open>C\<close>, the mode read from the first part
  without its first character, and the text of the band (the second part, if any).
  None when \<^verbatim>\<open>astype(int)\<close> of line 64 raises because of this row: its mode is missing
  or is no integer.
\<close>

definition abi_split ::
  "env \<Rightarrow> string option \<Rightarrow> (string \<times> string \<times> int \<times> string option) option" where
  "abi_split e pm =
     (case pm of
        None \<Rightarrow> None
      | Some t \<Rightarrow>
          (case str_rsplit CHR ''-'' 1 t of
             [p, mb] \<Rightarrow>
               (case str_split CHR ''C'' mb of
                  [] \<Rightarrow> None
                | m # bs \<Rightarrow>
                    (case astype_int e (drop 1 m) of
                       None \<Rightarrow> None
                     | Some k \<Rightarrow> Some (p, mb, k, (case bs of [] \<Rightarrow> None | b # _ \<Rightarrow> Some b))))
           | _ \<Rightarrow> None))"

definition has_dash :: "text_record \<Rightarrow> bool" where
  "has_dash r =
     (case product_mode r of None \<Rightarrow> False | Some t \<Rightarrow> length (str_rsplit CHR ''-'' 1 t) = 2)"

text \<open>The band of a row as line 66 reads it; None where \<^verbatim>\<open>astype(int)\<close> raises.\<close>

definition band_int :: "env \<Rightarrow> (string \<times> string \<times> int \<times> string option) \<Rightarrow> int option" where
  "band_int e s = (case s of (p, mb, k, b) \<Rightarrow> (case b of None \<Rightarrow> None | Some t \<Rightarrow> astype_int e t))"

definition abi_row ::
  "env \<Rightarrow> bool \<Rightarrow> text_record \<Rightarrow> (string \<times> string \<times> int \<times> string option) \<Rightarrow> text_record" where
  "abi_row e band_ok r s =
     (case s of (p, mb, k, b) \<Rightarrow>
        r\<lparr>product := Some p,
          abi := Some \<lparr>mode_bands = mb, mode = k,
                       band = (if band_ok then band_int e s else None)\<rparr>\<rparr>)"

text \<open>
  Lines 59-69 on the whole table. No row with a \<open>-\<close>: the split has one column and
  \<^verbatim>\<open>product_mode[1]\<close> raises. The \<^verbatim>\<open>try\<close> of line 65 succeeds when every row has a band
  that is an integer; in every other case the bare \<^verbatim>\<open>except\<close> sets the band of all rows to
  None.
\<close>

definition abi_step :: "env \<Rightarrow> text_record list \<Rightarrow> error + text_record list" where
  "abi_step e df =
     (if \<not> list_ex has_dash df then Inl MissingColumn
      else (case those (map (\<lambda>r. abi_split e (product_mode r)) df) of
              None \<Rightarrow> Inl ModeNotInt
            | Some ss \<Rightarrow>
                (let band_ok = list_all (\<lambda>s. band_int e s \<noteq> None) ss
                 in Inr (map2 (abi_row e band_ok) df ss))))"

subsection \<open>The band filter: lines 72-75\<close>

fun band_list :: "band_arg \<Rightarrow> int list" where
  "band_list (Band b) = [b]"
| "band_list (Bands bs) = bs"

definition band_isin :: "int list \<Rightarrow> ('t, 'c) file_record \<Rightarrow> bool" where
  "band_isin bs r =
     (case abi r of
        None \<Rightarrow> False
      | Some a \<Rightarrow> (case band a of None \<Rightarrow> False | Some b \<Rightarrow> b \<in> set bs))"

definition filter_bands :: "band_arg option \<Rightarrow> text_record list \<Rightarrow> text_record list" where
  "filter_bands bands' df =
     (case bands' of None \<Rightarrow> df | Some b \<Rightarrow> filter (band_isin (band_list b)) df)"

subsection \<open>The time columns and the window: lines 80-85\<close>

text \<open>
  \<^verbatim>\<open>pd.to_datetime(column, format=...)\<close> on one cell: a missing text gives NaT, a text is
  decoded by \<open>strptime\<close>, and the call raises when the decoder does.
\<close>

definition to_datetime :: "env \<Rightarrow> string \<Rightarrow> string option \<Rightarrow> datetime64 option" where
  "to_datetime e fmt c = (case c of None \<Rightarrow> Some NaT | Some t \<Rightarrow> strptime e fmt t)"

definition convert_row :: "env \<Rightarrow> text_record \<Rightarrow> time_record option" where
  "convert_row e r =
     (case to_datetime e ''s%Y%j%H%M%S%f'' (start r) of
        None \<Rightarrow> None
      | Some s \<Rightarrow>
          (case to_datetime e ''e%Y%j%H%M%S%f'' (end_time r) of
             None \<Rightarrow> None
           | Some t \<Rightarrow>
               (case to_datetime e ''c%Y%j%H%M%S%f.nc'' (creation r) of
                  None \<Rightarrow> None
                | Some c \<Rightarrow>
                    Some \<lparr>file_path = file_path r, product_mode = product_mode r,
                          satellite = satellite r, start = s, end_time = t, creation = c,
                          product = product r, domain = domain r, abi = abi r\<rparr>)))"

definition convert_times :: "env \<Rightarrow> text_record list \<Rightarrow> error + time_record list" where
  "convert_times e df =
     (case those (map (convert_row e) df) of None \<Rightarrow> Inl DatetimeParse | Some rs \<Rightarrow> Inr rs)"

text \<open>
  Line 85, two masks one after the other. A row that passes both has a timestamp in
  \<open>start\<close> and in \<open>end\<close> (NaT passes no comparison), so the rows of the result carry
  timestamps there: \<open>narrow\<close> drops nothing that the masks kept.
\<close>

definition narrow :: "time_record \<Rightarrow> goes_file option" where
  "narrow r =
     (case start r of
        NaT \<Rightarrow> None
      | Timestamp s \<Rightarrow>
          (case end_time r of
             NaT \<Rightarrow> None
           | Timestamp t \<Rightarrow>
               Some \<lparr>file_path = file_path r, product_mode = product_mode r,
                     satellite = satellite r, start = s, end_time = t, creation = creation r,
                     product = product r, domain = domain r, abi = abi r\<rparr>))"

definition filter_window :: "timestamp \<Rightarrow> timestamp \<Rightarrow> time_record list \<Rightarrow> goes_file list" where
  "filter_window start' end' df =
     List.map_filter narrow
       (filter (\<lambda>r. le_dt (end_time r) end') (filter (\<lambda>r. ge_dt (start r) start') df))"

subsection \<open>\<^verbatim>\<open>_goes_file_df\<close>\<close>

text \<open>Lines 46-75, on the files listed: the table of texts, after the band filter.\<close>

definition text_table ::
  "env \<Rightarrow> string \<Rightarrow> band_arg option \<Rightarrow> string list \<Rightarrow> error + text_record list" where
  "text_table e product' bands' files =
     (if length files = 0 then Inl NoFilesFound
      else
        (case build_table files of
           Inl x \<Rightarrow> Inl x
         | Inr df \<Rightarrow>
             (if startswith product' ''ABI''
              then (case abi_step e df of
                      Inl x \<Rightarrow> Inl x
                    | Inr df1 \<Rightarrow> Inr (filter_bands bands' df1))
              else Inr df)))"

text \<open>Lines 46-82: the table before the window is applied.\<close>

definition parsed_table ::
  "env \<Rightarrow> string \<Rightarrow> band_arg option \<Rightarrow> string list \<Rightarrow> error + time_record list" where
  "parsed_table e product' bands' files =
     (case text_table e product' bands' files of
        Inl x \<Rightarrow> Inl x
      | Inr df \<Rightarrow> convert_times e df)"

text \<open>
  Lines 85-90: the window, and the arguments of the call stored in \<^verbatim>\<open>df.attrs\<close>.
  \<^verbatim>\<open>params\<close> is the \<^verbatim>\<open>locals()\<close> of line 33, taken before any argument is rebound, so
  it holds the arguments as they were passed.
\<close>

definition file_table ::
  "env \<Rightarrow> string \<Rightarrow> string \<Rightarrow> timestamp \<Rightarrow> timestamp \<Rightarrow> band_arg option \<Rightarrow> bool \<Rightarrow> string list
     \<Rightarrow> error + (goes_file, params) data_frame" where
  "file_table e satellite' product' start' end' bands' refresh' files =
     (case parsed_table e product' bands' files of
        Inl x \<Rightarrow> Inl x
      | Inr df \<Rightarrow>
          Inr \<lparr>rows = filter_window start' end' df,
               attrs = \<lparr>attr_satellite = satellite', attr_product = product',
                        attr_start = start', attr_end = end',
                        attr_bands = bands', attr_refresh = refresh'\<rparr>\<rparr>)"

text \<open>
  The whole function. \<open>start'\<close> and \<open>end'\<close> are the bounds as timestamps, that is after
  the conversion of lines 35-36.
\<close>

definition goes_file_df ::
  "env \<Rightarrow> string \<Rightarrow> string \<Rightarrow> timestamp \<Rightarrow> timestamp \<Rightarrow> band_arg option \<Rightarrow> bool \<Rightarrow> world
     \<Rightarrow> (error + (goes_file, params) data_frame) \<times> world" where
  "goes_file_df e satellite' product' start' end' bands' refresh' w =
     (let DATES = date_range (floor_hour start') (floor_hour end')
      in case list_files e satellite' product' refresh' DATES [] w of
           (Inl x, w') \<Rightarrow> (Inl x, w')
         | (Inr files, w') \<Rightarrow>
             (file_table e satellite' product' start' end' bands' refresh' files, w'))"

subsection \<open>The nearest time: lines 166-171\<close>

text \<open>
  \<^verbatim>\<open>Index.get_indexer([t], method="nearest")\<close> on an index that is sorted and has no
  duplicates, as pandas computes it: the position of the last label at or before \<open>t\<close>
  (\<open>pad\<close>) and of the first label at or after \<open>t\<close> (\<open>backfill\<close>), each \<open>-1\<close> when there is
  none; the distances of \<open>t\<close> to the two labels, read with numpy's indexing, where \<open>-1\<close> is
  the last position; then the left position when its distance is strictly smaller or there is
  no right position, else the right one. On an empty index the answer is the pad position,
  \<open>-1\<close>. This follows \<^verbatim>\<open>Index._get_nearest_indexer\<close> of pandas line by line: its first
  statement is \<^verbatim>\<open>if not len(self): return self._get_fill_indexer(target, "pad")\<close>, and the
  comparison is \<^verbatim>\<open>operator.lt\<close> because the index is increasing. \<open>np_index\<close> is the
  indexing of a numpy array by one integer, None where numpy raises IndexError.
\<close>

definition np_index :: "'a list \<Rightarrow> int \<Rightarrow> 'a option" where
  "np_index xs i =
     (let n = int (length xs); j = (if i < 0 then i + n else i)
      in if 0 \<le> j \<and> j < n then Some (xs ! nat j) else None)"

definition pad_indexer :: "timestamp list \<Rightarrow> timestamp \<Rightarrow> int" where
  "pad_indexer vs t = int (length (filter (\<lambda>v. v \<le> t) vs)) - 1"

definition backfill_indexer :: "timestamp list \<Rightarrow> timestamp \<Rightarrow> int" where
  "backfill_indexer vs t =
     (let k = length (filter (\<lambda>v. v < t) vs) in if k < length vs then int k else - 1)"

definition difference_compat :: "timestamp list \<Rightarrow> timestamp \<Rightarrow> int \<Rightarrow> int option" where
  "difference_compat vs t i = map_option (\<lambda>v. \<bar>t - v\<bar>) (np_index vs i)"

definition get_indexer_nearest :: "timestamp list \<Rightarrow> timestamp \<Rightarrow> int option" where
  "get_indexer_nearest vs t =
     (if length vs = 0 then Some (pad_indexer vs t)
      else
        (let left_indexer = pad_indexer vs t;
             right_indexer = backfill_indexer vs t
         in case difference_compat vs t left_indexer of
              None \<Rightarrow> None
            | Some left_distance \<Rightarrow>
                (case difference_compat vs t right_indexer of
                   None \<Rightarrow> None
                 | Some right_distance \<Rightarrow>
                     Some (if left_distance < right_distance \<or> right_indexer = - 1
                           then left_indexer else right_indexer))))"

subsection \<open>\<^verbatim>\<open>find_goes_dataset\<close>\<close>

datatype satellite_arg = SatInt int | SatStr string

fun str :: "satellite_arg \<Rightarrow> string" where
  "str (SatInt i) = str_int i"
| "str (SatStr s) = s"

text \<open>Lines 129-136: the number of the satellite, None where line 136 raises.\<close>

definition satellite_number :: "string \<Rightarrow> string option" where
  "satellite_number s =
     (if s \<in> set [''16'', ''G16'', ''GOES16'', ''GOES-16'', ''GOES-EAST'', ''EAST''] then Some ''16''
      else if s \<in> set [''17'', ''G17'', ''GOES17'', ''GOES-17''] then Some ''17''
      else if s \<in> set [''18'', ''G18'', ''GOES18'', ''GOES-18'', ''GOES-WEST'', ''WEST''] then Some ''18''
      else None)"

text \<open>
  The default of the parameter \<^verbatim>\<open>datetime\<close>, \<^verbatim>\<open>pd.Timestamp.now()\<close>, is an expression
  of the \<^verbatim>\<open>def\<close> statement (line 96): Python evaluates it once, when the module is loaded,
  and every call that leaves the argument out receives that value.
\<close>

record module =
  default_datetime :: timestamp

definition import_met4450 :: "world \<Rightarrow> module" where
  "import_met4450 w = \<lparr>default_datetime = clock w\<rparr>"

record find_params =
  arg_satellite :: satellite_arg
  arg_product :: string
  arg_domain :: string
  arg_bands :: "band_arg option"
  arg_datetime :: timestamp

text \<open>
  Line 159: \<^verbatim>\<open>str.contains\<close> gives a missing value for a missing text, and a mask with a
  missing value raises. The pattern is searched as it is written: a product name of letters,
  digits and \<open>-\<close> has no character that a regular expression reads otherwise.
\<close>

definition mesoscale :: "string \<Rightarrow> goes_file list \<Rightarrow> error + goes_file list" where
  "mesoscale pat df =
     (if list_ex (\<lambda>r. product_mode r = None) df then Inl MaskNA
      else Inr (filter (\<lambda>r. case product_mode r of None \<Rightarrow> False | Some t \<Rightarrow> str_contains t pat) df))"

text \<open>
  Lines 166-172. \<^verbatim>\<open>sort_values\<close> is a sort by \<open>start\<close> (the order it leaves among rows
  of equal \<open>start\<close> is not fixed by pandas; here it is the order of the table);
  \<^verbatim>\<open>index.unique()\<close> keeps one label for each \<open>start\<close>, in the sorted order;
  \<^verbatim>\<open>df.loc[nearest_time]\<close> keeps the rows whose label is the one found.
\<close>

definition nearest_rows :: "timestamp \<Rightarrow> goes_file list \<Rightarrow> error + goes_file list" where
  "nearest_rows datetime' df =
     (let df1 = sort_key start df;
          unique_times_index = remdups (map start df1)
      in case get_indexer_nearest unique_times_index datetime' of
           None \<Rightarrow> Inl IndexError
         | Some nearest_time_index \<Rightarrow>
             (case np_index unique_times_index nearest_time_index of
                None \<Rightarrow> Inl IndexError
              | Some nearest_time \<Rightarrow> Inr (filter (\<lambda>r. start r = nearest_time) df1)))"

text \<open>Lines 129-163: the rows among which the nearest time is looked for.\<close>

definition candidates ::
  "env \<Rightarrow> satellite_arg \<Rightarrow> string \<Rightarrow> string \<Rightarrow> band_arg option \<Rightarrow> timestamp
     \<Rightarrow> world \<Rightarrow> (error + goes_file list) \<times> world" where
  "candidates e satellite' product' domain' bands' datetime' w =
     (case satellite_number (upper (str satellite')) of
        None \<Rightarrow> (Inl (SatelliteNotRecognized (str satellite')), w)
      | Some number \<Rightarrow>
          (let bucket = ''noaa-goes'' @ number;
               product_domain =
                 (if domain' \<in> set [''M1'', ''M2''] then product' @ ''M''
                  else product' @ domain')
           in case goes_file_df e bucket product_domain
                     (datetime' - hour) (datetime' + hour) bands' True w of
                (Inl x, w1) \<Rightarrow> (Inl x, w1)
              | (Inr df, w1) \<Rightarrow>
                  (case (if domain' \<in> set [''M1'', ''M2'']
                         then mesoscale (product' @ domain') (rows df)
                         else Inr (rows df)) of
                     Inl x \<Rightarrow> (Inl x, w1)
                   | Inr df1 \<Rightarrow>
                       (Inr (map (\<lambda>r. r\<lparr>product := Some product',
                                         domain := Some domain'\<rparr>) df1), w1))))"

text \<open>
  The whole function; \<open>datetime_arg\<close> is None when the call leaves \<^verbatim>\<open>datetime\<close> out.
  The notice of line 177 is printed without its two pictographs.
\<close>

definition find_goes_dataset ::
  "module \<Rightarrow> env \<Rightarrow> satellite_arg \<Rightarrow> string \<Rightarrow> string \<Rightarrow> band_arg option \<Rightarrow> timestamp option
     \<Rightarrow> world \<Rightarrow> (error + (goes_file, find_params) data_frame option) \<times> world" where
  "find_goes_dataset m e satellite' product' domain' bands' datetime_arg w =
     (let datetime' = (case datetime_arg of None \<Rightarrow> default_datetime m | Some t \<Rightarrow> t)
      in case candidates e satellite' product' domain' bands' datetime' w of
           (Inl x, w1) \<Rightarrow> (Inl x, w1)
         | (Inr df, w1) \<Rightarrow>
             (case nearest_rows datetime' df of
                Inl x \<Rightarrow> (Inl x, w1)
              | Inr df2 \<Rightarrow>
                  (if length df2 = 0
                   then (Inr None, w1\<lparr>stdout := stdout w1 @ [''No data....'']\<rparr>)
                   else (Inr (Some \<lparr>rows = df2,
                                    attrs = \<lparr>arg_satellite = satellite',
                                             arg_product = product',
                                             arg_domain = domain',
                                             arg_bands = bands',
                                             arg_datetime = datetime'\<rparr>\<rparr>),
                         w1))))"

subsection \<open>A store of files to run the functions on\<close>

text \<open>
  A listing client over a finite store, and decoders for the texts of GOES file names:
  a stamp is a year of four digits, a day of the year of three, hour, minute and second of
  two each, and a fraction of a second of one to nine digits, as in
  \<open>s20191721801547\<close>. On such a text, with every field in its range, \<^verbatim>\<open>pd.to_datetime\<close>
  reads the same fields. \<open>decimal_int\<close> is \<^verbatim>\<open>int(text)\<close> on a text of decimal digits.
\<close>

definition digit_val :: "char \<Rightarrow> int option" where
  "digit_val c = map_of (zip ''0123456789'' [0, 1, 2, 3, 4, 5, 6, 7, 8, 9]) c"

fun int_of_digits :: "int \<Rightarrow> string \<Rightarrow> int option" where
  "int_of_digits a [] = Some a"
| "int_of_digits a (c # cs) =
     (case digit_val c of None \<Rightarrow> None | Some d \<Rightarrow> int_of_digits (10 * a + d) cs)"

definition decimal_int :: "string \<Rightarrow> int option" where
  "decimal_int t = (if t = [] then None else int_of_digits 0 t)"

definition field_width :: "char \<Rightarrow> nat" where
  "field_width d =
     (if d = CHR ''Y'' then 4 else if d = CHR ''j'' then 3
      else if d \<in> set ''HMS'' then 2 else 0)"

fun scan_format :: "string \<Rightarrow> string \<Rightarrow> (char \<times> string) list \<Rightarrow> (char \<times> string) list option" where
  "scan_format [] t acc = (if t = [] then Some acc else None)"
| "scan_format (c # fmt) t acc =
     (if c = CHR ''%'' then
        (case fmt of
           [] \<Rightarrow> None
         | d # fmt' \<Rightarrow>
             (let n = (if d = CHR ''f''
                       then length (takeWhile (\<lambda>x. digit_val x \<noteq> None) (take 9 t))
                       else field_width d)
              in if n = 0 \<or> length t < n then None
                 else scan_format fmt' (drop n t) ((d, take n t) # acc)))
      else
        (case t of
           [] \<Rightarrow> None
         | x # t' \<Rightarrow> if x = c then scan_format fmt t' acc else None))"

definition is_leap :: "int \<Rightarrow> bool" where
  "is_leap y = (y mod 4 = 0 \<and> (y mod 100 \<noteq> 0 \<or> y mod 400 = 0))"

definition leaps_before :: "int \<Rightarrow> int" where
  "leaps_before y = (y - 1) div 4 - (y - 1) div 100 + (y - 1) div 400"

text \<open>The timestamp of second \<open>s\<close> of minute \<open>mi\<close> of hour \<open>h\<close> of day \<open>j\<close> of year \<open>y\<close>, plus \<open>ns\<close>.\<close>

definition stamp :: "int \<Rightarrow> int \<Rightarrow> int \<Rightarrow> int \<Rightarrow> int \<Rightarrow> int \<Rightarrow> timestamp" where
  "stamp y j h mi s ns =
     ((((365 * (y - 1970) + (leaps_before y - leaps_before 1970) + (j - 1)) * 24 + h) * 60
        + mi) * 60 + s) * 1000000000 + ns"

definition field :: "(char \<times> string) list \<Rightarrow> char \<Rightarrow> int option" where
  "field fs d = (case map_of fs d of None \<Rightarrow> None | Some t \<Rightarrow> decimal_int t)"

definition fraction :: "(char \<times> string) list \<Rightarrow> int option" where
  "fraction fs =
     (case map_of fs CHR ''f'' of
        None \<Rightarrow> None
      | Some t \<Rightarrow> decimal_int (t @ replicate (9 - length t) CHR ''0''))"

definition goes_strptime :: "string \<Rightarrow> string \<Rightarrow> datetime64 option" where
  "goes_strptime fmt t =
     (case scan_format fmt t [] of
        None \<Rightarrow> None
      | Some fs \<Rightarrow>
          (case (field fs CHR ''Y'', field fs CHR ''j'', field fs CHR ''H'',
                 field fs CHR ''M'', field fs CHR ''S'', fraction fs) of
             (Some y, Some j, Some h, Some mi, Some s, Some ns) \<Rightarrow>
               (if 1970 \<le> y \<and> y \<le> 2261 \<and> 1 \<le> j \<and> j \<le> (if is_leap y then 366 else 365)
                   \<and> h < 24 \<and> mi < 60 \<and> s < 60
                then Some (Timestamp (stamp y j h mi s ns)) else None)
           | _ \<Rightarrow> None))"

definition store_ls :: "(prefix \<times> string list) list \<Rightarrow> prefix \<Rightarrow> bool \<Rightarrow> string list option" where
  "store_ls store p refresh' = Some (case map_of store p of None \<Rightarrow> [] | Some fs \<Rightarrow> fs)"

definition store_env :: "(prefix \<times> string list) list \<Rightarrow> env" where
  "store_env store =
     \<lparr>fs_ls = store_ls store, strptime = goes_strptime, astype_int = decimal_int\<rparr>"

text \<open>
  Two scans of the CONUS multi-band product of GOES-16, of 21 June 2019 (day 172), as the
  store lists them under the hour 18: scan A from 18:01:54.7 to 18:04:32.0 and scan B from
  18:06:54.7 to 18:09:32.0.
\<close>

definition scan_A :: string where
  "scan_A = ''noaa-goes16/ABI-L2-MCMIPC/2019/172/18/OR_ABI-L2-MCMIPC-M6_G16_s20191721801547_e20191721804320_c20191721804433.nc''"

definition scan_B :: string where
  "scan_B = ''noaa-goes16/ABI-L2-MCMIPC/2019/172/18/OR_ABI-L2-MCMIPC-M6_G16_s20191721806547_e20191721809320_c20191721809433.nc''"

text \<open>
  Two files of the radiance product, which has one file for each channel: channels 13 and 2
  of the scan from 18:01:54.7 to 18:04:32.0.
\<close>

definition scan_C13 :: string where
  "scan_C13 = ''noaa-goes16/ABI-L1b-RadC/2019/172/18/OR_ABI-L1b-RadC-M6C13_G16_s20191721801547_e20191721804320_c20191721804380.nc''"

definition scan_C02 :: string where
  "scan_C02 = ''noaa-goes16/ABI-L1b-RadC/2019/172/18/OR_ABI-L1b-RadC-M6C02_G16_s20191721801547_e20191721804320_c20191721804375.nc''"

definition demo_store :: "(prefix \<times> string list) list" where
  "demo_store =
     [(Prefix ''noaa-goes16'' ''ABI-L2-MCMIPC'' (stamp 2019 172 18 0 0 0), [scan_A, scan_B]),
      (Prefix ''noaa-goes16'' ''ABI-L1b-RadC'' (stamp 2019 172 18 0 0 0), [scan_C13, scan_C02])]"

text \<open>
  A store with one object whose name carries the two stamps of scan A the other way round:
  its \<open>s\<close> field is 18:04:32.0 and its \<open>e\<close> field 18:01:54.7.
\<close>

definition scan_R :: string where
  "scan_R = ''noaa-goes16/ABI-L2-MCMIPC/2019/172/18/OR_ABI-L2-MCMIPC-M6_G16_s20191721804320_e20191721801547_c20191721804433.nc''"

definition reversed_store :: "(prefix \<times> string list) list" where
  "reversed_store =
     [(Prefix ''noaa-goes16'' ''ABI-L2-MCMIPC'' (stamp 2019 172 18 0 0 0), [scan_R])]"

definition demo_world :: world where
  "demo_world = \<lparr>clock = stamp 2019 172 12 0 0 0, listed = [], stdout = []\<rparr>"

text \<open>The same process some hours later, at 18:05:00.\<close>

definition later_world :: world where
  "later_world = \<lparr>clock = stamp 2019 172 18 5 0 0, listed = [], stdout = []\<rparr>"

text \<open>The rows that \<open>goes_file_df\<close> builds of these files.\<close>

definition row_A :: goes_file where
  "row_A =
     \<lparr>file_path = scan_A, product_mode = Some ''ABI-L2-MCMIPC-M6'', satellite = Some ''G16'',
      start = stamp 2019 172 18 1 54 700000000, end_time = stamp 2019 172 18 4 32 0,
      creation = Timestamp (stamp 2019 172 18 4 43 300000000),
      product = Some ''ABI-L2-MCMIPC'', domain = None,
      abi = Some \<lparr>mode_bands = ''M6'', mode = 6, band = None\<rparr>\<rparr>"

definition row_B :: goes_file where
  "row_B =
     \<lparr>file_path = scan_B, product_mode = Some ''ABI-L2-MCMIPC-M6'', satellite = Some ''G16'',
      start = stamp 2019 172 18 6 54 700000000, end_time = stamp 2019 172 18 9 32 0,
      creation = Timestamp (stamp 2019 172 18 9 43 300000000),
      product = Some ''ABI-L2-MCMIPC'', domain = None,
      abi = Some \<lparr>mode_bands = ''M6'', mode = 6, band = None\<rparr>\<rparr>"

definition row_R :: goes_file where
  "row_R =
     \<lparr>file_path = scan_R, product_mode = Some ''ABI-L2-MCMIPC-M6'', satellite = Some ''G16'',
      start = stamp 2019 172 18 4 32 0, end_time = stamp 2019 172 18 1 54 700000000,
      creation = Timestamp (stamp 2019 172 18 4 43 300000000),
      product = Some ''ABI-L2-MCMIPC'', domain = None,
      abi = Some \<lparr>mode_bands = ''M6'', mode = 6, band = None\<rparr>\<rparr>"

definition row_C13 :: goes_file where
  "row_C13 =
     \<lparr>file_path = scan_C13, product_mode = Some ''ABI-L1b-RadC-M6C13'', satellite = Some ''G16'',
      start = stamp 2019 172 18 1 54 700000000, end_time = stamp 2019 172 18 4 32 0,
      creation = Timestamp (stamp 2019 172 18 4 38 0),
      product = Some ''ABI-L1b-RadC'', domain = None,
      abi = Some \<lparr>mode_bands = ''M6C13'', mode = 6, band = Some 13\<rparr>\<rparr>"

definition row_C02 :: goes_file where
  "row_C02 =
     \<lparr>file_path = scan_C02, product_mode = Some ''ABI-L1b-RadC-M6C02'', satellite = Some ''G16'',
      start = stamp 2019 172 18 1 54 700000000, end_time = stamp 2019 172 18 4 32 0,
      creation = Timestamp (stamp 2019 172 18 4 37 500000000),
      product = Some ''ABI-L1b-RadC'', domain = None,
      abi = Some \<lparr>mode_bands = ''M6C02'', mode = 6, band = Some 2\<rparr>\<rparr>"

text \<open>
  A row as \<^verbatim>\<open>find_goes_dataset(product="ABI-L2-MCMIP", domain="C")\<close> rewrites it at lines
  162-163, and the world after the hours 17, 18 and 19 have been listed.
\<close>

definition matched :: "goes_file \<Rightarrow> goes_file" where
  "matched r = r\<lparr>product := Some ''ABI-L2-MCMIP'', domain := Some ''C''\<rparr>"

definition listed_hours :: "world \<Rightarrow> int \<Rightarrow> world" where
  "listed_hours w h =
     w\<lparr>listed := [Prefix ''noaa-goes16'' ''ABI-L2-MCMIPC'' (stamp 2019 172 (h - 1) 0 0 0),
                  Prefix ''noaa-goes16'' ''ABI-L2-MCMIPC'' (stamp 2019 172 h 0 0 0),
                  Prefix ''noaa-goes16'' ''ABI-L2-MCMIPC'' (stamp 2019 172 (h + 1) 0 0 0)]\<rparr>"

definition match_frame ::
  "goes_file list \<Rightarrow> timestamp \<Rightarrow> (goes_file, find_params) data_frame" where
  "match_frame rs t =
     \<lparr>rows = rs,
      attrs = \<lparr>arg_satellite = SatInt 16, arg_product = ''ABI-L2-MCMIP'', arg_domain = ''C'',
               arg_bands = None, arg_datetime = t\<rparr>\<rparr>"

text \<open>The table of a call with its \<^verbatim>\<open>attrs\<close>.\<close>

definition frame ::
  "goes_file list \<Rightarrow> string \<Rightarrow> string \<Rightarrow> timestamp \<Rightarrow> timestamp \<Rightarrow> band_arg option
     \<Rightarrow> (goes_file, params) data_frame" where
  "frame rs satellite' product' start' end' bands' =
     \<lparr>rows = rs,
      attrs = \<lparr>attr_satellite = satellite', attr_product = product', attr_start = start',
               attr_end = end', attr_bands = bands', attr_refresh = True\<rparr>\<rparr>"

section \<open>Properties\<close>

subsection \<open>Listing\<close>


lemma list_files_snd:
  "\<exists>ps. snd (list_files e s p r ds acc w) = w\<lparr>listed := listed w @ ps\<rparr>
        \<and> list_all (\<lambda>q. bucket_of q = s) ps \<and> (ps = [] \<longleftrightarrow> ds = [])"
proof (induction ds arbitrary: acc w)
  case Nil
  show ?case by (rule exI [of _ "[]"]) simp
next
  case (Cons d ds)
  let ?w1 = "w\<lparr>listed := listed w @ [Prefix s p d]\<rparr>"
  show ?case
  proof (cases "fs_ls e (Prefix s p d) r")
    case None
    then show ?thesis
      by (intro exI [of _ "[Prefix s p d]"]) simp
  next
    case (Some fs)
    from Cons.IH [of "acc @ fs" ?w1] obtain ps where
      ps: "snd (list_files e s p r ds (acc @ fs) ?w1) = ?w1\<lparr>listed := listed ?w1 @ ps\<rparr>"
          "list_all (\<lambda>q. bucket_of q = s) ps"
      by blast
    show ?thesis
      using Some ps by (intro exI [of _ "Prefix s p d # ps"]) simp
  qed
qed

lemma goes_file_df_snd:
  "snd (goes_file_df e s p lo hi b r w) =
   snd (list_files e s p r (date_range (floor_hour lo) (floor_hour hi)) [] w)"
  by (simp add: goes_file_df_def Let_def split: prod.split sum.split)

lemma goes_file_df_fst:
  "fst (goes_file_df e s p lo hi b r w) =
   (case fst (list_files e s p r (date_range (floor_hour lo) (floor_hour hi)) [] w) of
      Inl x \<Rightarrow> Inl x
    | Inr files \<Rightarrow> file_table e s p lo hi b r files)"
  by (simp add: goes_file_df_def Let_def split: prod.split sum.split)

lemma floor_hour_mono: "a \<le> b \<Longrightarrow> floor_hour a \<le> floor_hour b"
proof -
  assume ab: "a \<le> b"
  have h: "(0::int) < hour" by (simp add: hour_def)
  have "floor_hour a = a div hour * hour" "floor_hour b = b div hour * hour"
    by (simp_all add: floor_hour_def minus_mod_eq_div_mult)
  moreover have "a div hour \<le> b div hour" using ab h by (rule zdiv_mono1)
  ultimately show ?thesis using h by simp
qed

lemma date_range_nonempty: "a \<le> b \<Longrightarrow> date_range a b \<noteq> []"
  by (simp add: date_range_def)

lemma candidates_snd:
  assumes "satellite_number (upper (str sat)) = Some n"
  shows "snd (candidates e sat pr dm b t w) =
         snd (list_files e (''noaa-goes'' @ n)
                (if dm \<in> set [''M1'', ''M2''] then pr @ ''M'' else pr @ dm) True
                (date_range (floor_hour (t - hour)) (floor_hour (t + hour))) [] w)"
proof -
  let ?pd = "if dm \<in> set [''M1'', ''M2''] then pr @ ''M'' else pr @ dm"
  obtain r w1 where g:
    "goes_file_df e (''noaa-goes'' @ n) ?pd (t - hour) (t + hour) b True w = (r, w1)"
    by (cases "goes_file_df e (''noaa-goes'' @ n) ?pd (t - hour) (t + hour) b True w")
  have "snd (candidates e sat pr dm b t w) = w1"
    using assms g unfolding candidates_def Let_def
    by (simp split: sum.split)
  moreover have "w1 = snd (goes_file_df e (''noaa-goes'' @ n) ?pd (t - hour) (t + hour) b True w)"
    using g by simp
  ultimately show ?thesis
    by (simp only: goes_file_df_snd)
qed

lemma find_snd_listed:
  "listed (snd (find_goes_dataset m e sat pr dm b dt w)) =
   listed (snd (candidates e sat pr dm b (case dt of None \<Rightarrow> default_datetime m | Some t \<Rightarrow> t) w))"
  by (simp add: find_goes_dataset_def Let_def split: prod.split sum.split)

subsection \<open>The satellite\<close>



text \<open>
  C6. The number of a recognized satellite is one of 16, 17 and 18 and is computed from the
  alias alone; whatever the other arguments, the collaborators and the world of a call, the
  call lists at least one prefix and every prefix it lists is in the bucket
  \<open>noaa-goes\<close> followed by that number.
\<close>

theorem satellite_bucket_deterministic:
  assumes "satellite_number (upper (str satellite')) = Some number"
  shows "number \<in> set [''16'', ''17'', ''18''] \<and>
         (\<exists>ps. listed (snd (find_goes_dataset m e satellite' product' domain' bands' datetime_arg w))
                  = listed w @ ps
              \<and> ps \<noteq> [] \<and> list_all (\<lambda>q. bucket_of q = ''noaa-goes'' @ number) ps)"
proof -
  let ?t = "case datetime_arg of None \<Rightarrow> default_datetime m | Some t \<Rightarrow> t"
  let ?pd = "if domain' \<in> set [''M1'', ''M2''] then product' @ ''M'' else product' @ domain'"
  let ?ds = "date_range (floor_hour (?t - hour)) (floor_hour (?t + hour))"
  have n: "number \<in> set [''16'', ''17'', ''18'']"
    using assms by (auto simp add: satellite_number_def split: if_splits)
  have "?t - hour \<le> ?t + hour" by (simp add: hour_def)
  then have ds: "?ds \<noteq> []" by (intro date_range_nonempty floor_hour_mono)
  obtain ps where ps:
    "snd (list_files e (''noaa-goes'' @ number) ?pd True ?ds [] w) = w\<lparr>listed := listed w @ ps\<rparr>"
    "list_all (\<lambda>q. bucket_of q = ''noaa-goes'' @ number) ps" "ps = [] \<longleftrightarrow> ?ds = []"
    using list_files_snd by blast
  have "listed (snd (find_goes_dataset m e satellite' product' domain' bands' datetime_arg w))
          = listed w @ ps"
    using ps(1) by (simp add: find_snd_listed candidates_snd [OF assms])
  with n ps ds show ?thesis by blast
qed

theorem satellite_bucket_deterministic_witness:
  "satellite_number (upper (str (SatStr ''goes-east''))) = Some ''16''
   \<and> ''16'' \<in> set [''16'', ''17'', ''18'']
   \<and> (\<exists>ps. listed (snd (find_goes_dataset (import_met4450 demo_world) (store_env demo_store)
                         (SatStr ''goes-east'') ''ABI-L2-MCMIP'' ''C'' None None demo_world))
               = listed demo_world @ ps
            \<and> ps \<noteq> [] \<and> list_all (\<lambda>q. bucket_of q = ''noaa-goes'' @ ''16'') ps)"
proof -
  have h: "satellite_number (upper (str (SatStr ''goes-east''))) = Some ''16''"
    by (simp add: satellite_number_def upper_def upper_char_def)
  show ?thesis
    using h satellite_bucket_deterministic [OF h, of "import_met4450 demo_world"
      "store_env demo_store" "''ABI-L2-MCMIP''" "''C''" None None demo_world]
    by simp
qed

subsection \<open>The empty-result error\<close>

lemma those_eq_Some: "those xs = Some ys \<longleftrightarrow> xs = map Some ys"
  by (induction xs arbitrary: ys) (auto split: option.splits)











subsection \<open>The stages of the table\<close>

lemma build_table_Inr: "build_table files = Inr df \<Longrightarrow> df = map text_row files"
  by (auto simp add: build_table_def split: if_splits)

lemma abi_step_Inr:
  assumes "abi_step e df = Inr df1"
  shows "\<exists>ss ok. length ss = length df \<and> df1 = map2 (abi_row e ok) df ss"
proof -
  from assms obtain ss where
    ss: "those (map (\<lambda>r. abi_split e (product_mode r)) df) = Some ss"
    and df1: "df1 = map2 (abi_row e (list_all (\<lambda>s. band_int e s \<noteq> None) ss)) df ss"
    by (auto simp add: abi_step_def Let_def split: if_splits option.splits)
  from ss have "map (\<lambda>r. abi_split e (product_mode r)) df = map Some ss"
    by (simp only: those_eq_Some)
  then have "length ss = length df"
    by (metis length_map)
  with df1 show ?thesis by blast
qed

lemma abi_row_fields:
  "file_path (abi_row e ok r s) = file_path r"
  "start (abi_row e ok r s) = start r"
  "end_time (abi_row e ok r s) = end_time r"
  "abi (abi_row e ok r s) \<noteq> None"
  by (simp_all add: abi_row_def split: prod.split)

lemma abi_step_rows:
  assumes "abi_step e df = Inr df1" and "x \<in> set df1"
  shows "\<exists>r\<in>set df. file_path x = file_path r \<and> start x = start r
            \<and> end_time x = end_time r \<and> abi x \<noteq> None"
proof -
  from abi_step_Inr [OF assms(1)] obtain ss ok where
    "length ss = length df" and df1: "df1 = map2 (abi_row e ok) df ss"
    by blast
  from assms(2) df1 obtain r s where "(r, s) \<in> set (zip df ss)" and x: "x = abi_row e ok r s"
    by auto
  then have "r \<in> set df" by (meson set_zip_leftD)
  with x show ?thesis by (auto simp add: abi_row_fields)
qed

lemma text_row_fields:
  "file_path (text_row f) = f"
  "start (text_row f) = cell 3 (name_parts f)"
  "end_time (text_row f) = cell 4 (name_parts f)"
  "abi (text_row f) = None"
  by (simp_all add: text_row_def)

lemma text_table_rows:
  assumes "text_table e p b files = Inr df" and "x \<in> set df"
  shows "start x = cell 3 (name_parts (file_path x))
       \<and> end_time x = cell 4 (name_parts (file_path x))
       \<and> (abi x = None) = (\<not> startswith p ''ABI'')"
proof (cases "startswith p ''ABI''")
  case False
  with assms have "x \<in> set (map text_row files)"
    by (auto simp add: text_table_def split: if_splits sum.splits dest!: build_table_Inr)
  with False show ?thesis by (auto simp add: text_row_fields)
next
  case True
  with assms(1) obtain df0 df1 where
    df0: "df0 = map text_row files" and st: "abi_step e df0 = Inr df1"
    and df: "df = filter_bands b df1"
    by (auto simp add: text_table_def split: if_splits sum.splits dest!: build_table_Inr)
  from assms(2) df have "x \<in> set df1"
    by (auto simp add: filter_bands_def split: option.splits)
  from abi_step_rows [OF st this] obtain r where
    "r \<in> set df0" "file_path x = file_path r" "start x = start r" "end_time x = end_time r"
    "abi x \<noteq> None"
    by blast
  with df0 True show ?thesis by (auto simp add: text_row_fields)
qed

lemma convert_times_Inr:
  "convert_times e df = Inr tbl \<Longrightarrow> map (convert_row e) df = map Some tbl"
  by (auto simp add: convert_times_def those_eq_Some split: option.splits)

lemma convert_row_Some:
  assumes "convert_row e r = Some x"
  shows "file_path x = file_path r" "abi x = abi r"
    "to_datetime e ''s%Y%j%H%M%S%f'' (start r) = Some (start x)"
    "to_datetime e ''e%Y%j%H%M%S%f'' (end_time r) = Some (end_time x)"
  using assms by (auto simp add: convert_row_def split: option.splits)

lemma map_eq_map_Some_set:
  "map f xs = map Some ys \<Longrightarrow> y \<in> set ys \<Longrightarrow> \<exists>x\<in>set xs. f x = Some y"
  by (induction xs arbitrary: ys) auto

lemma parsed_table_rows:
  assumes "parsed_table e p b files = Inr tbl" and "x \<in> set tbl"
  shows "to_datetime e ''s%Y%j%H%M%S%f'' (cell 3 (name_parts (file_path x))) = Some (start x)
       \<and> to_datetime e ''e%Y%j%H%M%S%f'' (cell 4 (name_parts (file_path x))) = Some (end_time x)
       \<and> (abi x = None) = (\<not> startswith p ''ABI'')"
proof -
  from assms(1) obtain df where tt: "text_table e p b files = Inr df"
    and ct: "convert_times e df = Inr tbl"
    by (auto simp add: parsed_table_def split: sum.splits)
  from map_eq_map_Some_set [OF convert_times_Inr [OF ct] assms(2)]
  obtain r where r: "r \<in> set df" "convert_row e r = Some x" by blast
  from text_table_rows [OF tt r(1)] convert_row_Some [OF r(2)]
  show ?thesis by simp
qed

subsection \<open>The window\<close>


lemma narrow_Some:
  assumes "narrow x = Some y"
  shows "start x = Timestamp (start y)" "end_time x = Timestamp (end_time y)"
    "file_path y = file_path x" "abi y = abi x"
  using assms by (auto simp add: narrow_def split: datetime64.splits)

lemma narrow_defined:
  "start x = Timestamp a \<Longrightarrow> end_time x = Timestamp z \<Longrightarrow> narrow x \<noteq> None"
  by (simp add: narrow_def)



lemma set_map_filter: "set (List.map_filter f xs) = {y. \<exists>x\<in>set xs. f x = Some y}"
  by (induction xs) (auto split: option.splits)

lemma file_table_Inr:
  assumes "file_table e s p lo hi b r files = Inr df"
  shows "\<exists>tbl. parsed_table e p b files = Inr tbl \<and> rows df = filter_window lo hi tbl"
  using assms by (auto simp add: file_table_def split: sum.splits)

lemma goes_file_df_Inr:
  assumes "fst (goes_file_df e s p lo hi b r w) = Inr df"
  shows "\<exists>files tbl.
           fst (list_files e s p r (date_range (floor_hour lo) (floor_hour hi)) [] w) = Inr files
         \<and> parsed_table e p b files = Inr tbl \<and> rows df = filter_window lo hi tbl"
proof -
  let ?l = "fst (list_files e s p r (date_range (floor_hour lo) (floor_hour hi)) [] w)"
  from assms obtain files where l: "?l = Inr files"
    and ft: "file_table e s p lo hi b r files = Inr df"
    by (cases ?l) (simp_all add: goes_file_df_fst)
  from file_table_Inr [OF ft] l show ?thesis by blast
qed




subsection \<open>The rows produced\<close>

text \<open>
  C8, as the code has it. Every row of the table returned has its \<open>start\<close> and \<open>end\<close>
  decoded from the \<open>s\<close> and \<open>e\<close> fields of its own file name, with the start bound at or
  before \<open>start\<close> and \<open>end\<close> at or before the end bound; the channel columns, the band among
  them, exist exactly when the product name starts with \<open>ABI\<close>. The two stamps are not
  compared with each other.
\<close>

theorem produced_record_invariant:
  assumes "fst (goes_file_df e satellite' product' start' end' bands' refresh' w) = Inr df"
    and "y \<in> set (rows df)"
  shows "start' \<le> start y \<and> end_time y \<le> end'
       \<and> to_datetime e ''s%Y%j%H%M%S%f'' (cell 3 (name_parts (file_path y)))
           = Some (Timestamp (start y))
       \<and> to_datetime e ''e%Y%j%H%M%S%f'' (cell 4 (name_parts (file_path y)))
           = Some (Timestamp (end_time y))
       \<and> (abi y = None) = (\<not> startswith product' ''ABI'')"
proof -
  from goes_file_df_Inr [OF assms(1)] obtain files tbl where
    pt: "parsed_table e product' bands' files = Inr tbl"
    and rw: "rows df = filter_window start' end' tbl"
    by blast
  from assms(2) rw obtain x where x: "x \<in> set tbl" "narrow x = Some y"
    and win: "ge_dt (start x) start'" "le_dt (end_time x) end'"
    by (auto simp add: filter_window_def set_map_filter)
  from narrow_Some [OF x(2)] win parsed_table_rows [OF pt x(1)]
  show ?thesis by simp
qed

theorem produced_record_invariant_witness:
  "fst (goes_file_df (store_env demo_store) ''noaa-goes16'' ''ABI-L2-MCMIPC''
          (stamp 2019 172 18 1 54 700000000) (stamp 2019 172 18 4 32 0) None True demo_world)
      = Inr (frame [row_A] ''noaa-goes16'' ''ABI-L2-MCMIPC''
               (stamp 2019 172 18 1 54 700000000) (stamp 2019 172 18 4 32 0) None)
   \<and> row_A \<in> set (rows (frame [row_A] ''noaa-goes16'' ''ABI-L2-MCMIPC''
               (stamp 2019 172 18 1 54 700000000) (stamp 2019 172 18 4 32 0) None))
   \<and> stamp 2019 172 18 1 54 700000000 \<le> start row_A \<and> end_time row_A \<le> stamp 2019 172 18 4 32 0
   \<and> to_datetime (store_env demo_store) ''s%Y%j%H%M%S%f'' (cell 3 (name_parts (file_path row_A)))
           = Some (Timestamp (start row_A))
   \<and> to_datetime (store_env demo_store) ''e%Y%j%H%M%S%f'' (cell 4 (name_parts (file_path row_A)))
           = Some (Timestamp (end_time row_A))
   \<and> (abi row_A = None) = (\<not> startswith ''ABI-L2-MCMIPC'' ''ABI'')"
proof -
  have h: "fst (goes_file_df (store_env demo_store) ''noaa-goes16'' ''ABI-L2-MCMIPC''
          (stamp 2019 172 18 1 54 700000000) (stamp 2019 172 18 4 32 0) None True demo_world)
      = Inr (frame [row_A] ''noaa-goes16'' ''ABI-L2-MCMIPC''
               (stamp 2019 172 18 1 54 700000000) (stamp 2019 172 18 4 32 0) None)"
    by code_simp
  have r: "row_A \<in> set (rows (frame [row_A] ''noaa-goes16'' ''ABI-L2-MCMIPC''
               (stamp 2019 172 18 1 54 700000000) (stamp 2019 172 18 4 32 0) None))"
    by (simp add: frame_def)
  show ?thesis
    using h r produced_record_invariant [OF h r] by (intro conjI) simp_all
qed

text \<open>
  C8 as stated fails: an object whose name has its \<open>s\<close> stamp after its \<open>e\<close> stamp gives a
  row with \<open>end\<close> before \<open>start\<close>.
\<close>

theorem start_after_end_counterexample:
  "fst (goes_file_df (store_env reversed_store) ''noaa-goes16'' ''ABI-L2-MCMIPC''
          (stamp 2019 172 17 0 0 0) (stamp 2019 172 19 0 0 0) None True demo_world)
      = Inr (frame [row_R] ''noaa-goes16'' ''ABI-L2-MCMIPC''
               (stamp 2019 172 17 0 0 0) (stamp 2019 172 19 0 0 0) None)
   \<and> end_time row_R < start row_R"
  by code_simp

subsection \<open>The band filter\<close>

lemma band_isin_abi: "abi x = abi r \<Longrightarrow> band_isin bs x = band_isin bs r"
  by (simp add: band_isin_def)

lemma map_Some_filter:
  assumes "map f xs = map Some ys"
    and "\<And>x y. f x = Some y \<Longrightarrow> Q y = P x"
  shows "map f (filter P xs) = map Some (filter Q ys)"
  using assms(1)
proof (induction xs arbitrary: ys)
  case Nil
  then show ?case by simp
next
  case (Cons x xs)
  then obtain y ys' where ys: "ys = y # ys'" "f x = Some y" "map f xs = map Some ys'"
    by (cases ys) auto
  from assms(2) [OF ys(2)] Cons.IH [OF ys(3)] ys show ?case by simp
qed

lemma map_filter_filter:
  assumes "\<And>x y. f x = Some y \<Longrightarrow> Q y = P x"
  shows "List.map_filter f (filter P xs) = filter Q (List.map_filter f xs)"
  by (induction xs) (auto split: option.splits dest: assms)

lemma convert_times_filter:
  assumes "convert_times e df = Inr tbl"
  shows "convert_times e (filter (band_isin bs) df) = Inr (filter (band_isin bs) tbl)"
proof -
  have "map (convert_row e) (filter (band_isin bs) df) = map Some (filter (band_isin bs) tbl)"
    using convert_times_Inr [OF assms]
    by (rule map_Some_filter) (rule band_isin_abi, rule convert_row_Some)
  then show ?thesis
    by (simp add: convert_times_def those_eq_Some [THEN iffD2])
qed

lemma filter_window_filter:
  "filter_window lo hi (filter (band_isin bs) tbl) = filter (band_isin bs) (filter_window lo hi tbl)"
proof -
  have "List.map_filter narrow (filter (band_isin bs)
           (filter (\<lambda>r. le_dt (end_time r) hi) (filter (\<lambda>r. ge_dt (start r) lo) tbl)))
        = filter (band_isin bs) (List.map_filter narrow
           (filter (\<lambda>r. le_dt (end_time r) hi) (filter (\<lambda>r. ge_dt (start r) lo) tbl)))"
    by (rule map_filter_filter) (rule band_isin_abi, rule narrow_Some)
  moreover have "filter (\<lambda>r. le_dt (end_time r) hi) (filter (\<lambda>r. ge_dt (start r) lo)
                    (filter (band_isin bs) tbl))
        = filter (band_isin bs)
           (filter (\<lambda>r. le_dt (end_time r) hi) (filter (\<lambda>r. ge_dt (start r) lo) tbl))"
    by (simp add: conj_commute conj_left_commute)
  ultimately show ?thesis by (simp only: filter_window_def)
qed

lemma text_table_bands:
  assumes "startswith p ''ABI''"
  shows "text_table e p (Some b) files =
         map_sum id (filter (band_isin (band_list b))) (text_table e p None files)"
  using assms
  by (simp add: text_table_def filter_bands_def split: sum.split)

lemma parsed_table_bands:
  assumes "startswith p ''ABI''" and "parsed_table e p None files = Inr tbl0"
  shows "parsed_table e p (Some b) files = Inr (filter (band_isin (band_list b)) tbl0)"
proof -
  from assms(2) obtain df0 where t0: "text_table e p None files = Inr df0"
    and c0: "convert_times e df0 = Inr tbl0"
    by (auto simp add: parsed_table_def split: sum.splits)
  have "text_table e p (Some b) files = Inr (filter (band_isin (band_list b)) df0)"
    by (simp add: text_table_bands [OF assms(1)] t0)
  with convert_times_filter [OF c0] show ?thesis
    by (simp add: parsed_table_def)
qed

lemma parsed_table_bands_all:
  assumes "startswith p ''ABI''" and "parsed_table e p (Some b) files = Inr tbl"
    and "x \<in> set tbl"
  shows "band_isin (band_list b) x"
proof -
  from assms(2) obtain df where t: "text_table e p (Some b) files = Inr df"
    and c: "convert_times e df = Inr tbl"
    by (auto simp add: parsed_table_def split: sum.splits)
  from t obtain df0 where "df = filter (band_isin (band_list b)) df0"
    by (cases "text_table e p None files") (auto simp add: text_table_bands [OF assms(1)])
  then have all: "\<And>r. r \<in> set df \<Longrightarrow> band_isin (band_list b) r" by simp
  from map_eq_map_Some_set [OF convert_times_Inr [OF c] assms(3)]
  obtain r where r: "r \<in> set df" "convert_row e r = Some x" by blast
  from all [OF r(1)] band_isin_abi [OF convert_row_Some(2) [OF r(2)]] show ?thesis by simp
qed

text \<open>
  C9. For a product whose name starts with \<open>ABI\<close> and a band filter \<open>b\<close>: every row
  returned has a band that is in the requested set, and when the call without a filter
  returns a table, the call with the filter returns exactly the rows of that table whose
  band is in the set, in the same order.
\<close>

theorem band_filter_exact:
  assumes "startswith product' ''ABI''"
  shows "(\<forall>df. fst (goes_file_df e satellite' product' start' end' (Some b) refresh' w) = Inr df
            \<longrightarrow> list_all (band_isin (band_list b)) (rows df))
       \<and> (\<forall>df0. fst (goes_file_df e satellite' product' start' end' None refresh' w) = Inr df0
            \<longrightarrow> (\<exists>df. fst (goes_file_df e satellite' product' start' end' (Some b) refresh' w)
                        = Inr df
                      \<and> rows df = filter (band_isin (band_list b)) (rows df0)))"
proof (intro conjI allI impI)
  fix df
  assume a: "fst (goes_file_df e satellite' product' start' end' (Some b) refresh' w) = Inr df"
  from goes_file_df_Inr [OF a] obtain files tbl where
    pt: "parsed_table e product' (Some b) files = Inr tbl"
    and rw: "rows df = filter_window start' end' tbl"
    by blast
  have "band_isin (band_list b) y" if "y \<in> set (rows df)" for y
  proof -
    from that rw obtain x where x: "x \<in> set tbl" "narrow x = Some y"
      by (auto simp add: filter_window_def set_map_filter)
    from parsed_table_bands_all [OF assms pt x(1)] band_isin_abi [OF narrow_Some(4) [OF x(2)]]
    show ?thesis by simp
  qed
  then show "list_all (band_isin (band_list b)) (rows df)"
    by (simp add: list_all_iff)
next
  fix df0
  assume a: "fst (goes_file_df e satellite' product' start' end' None refresh' w) = Inr df0"
  let ?l = "fst (list_files e satellite' product' refresh'
                   (date_range (floor_hour start') (floor_hour end')) [] w)"
  from goes_file_df_Inr [OF a] obtain files tbl0 where
    l: "?l = Inr files"
    and pt: "parsed_table e product' None files = Inr tbl0"
    and rw: "rows df0 = filter_window start' end' tbl0"
    by blast
  let ?df = "\<lparr>rows = filter_window start' end' (filter (band_isin (band_list b)) tbl0),
             attrs = \<lparr>attr_satellite = satellite', attr_product = product',
                      attr_start = start', attr_end = end',
                      attr_bands = Some b, attr_refresh = refresh'\<rparr>\<rparr>"
  have "fst (goes_file_df e satellite' product' start' end' (Some b) refresh' w) = Inr ?df"
    using l parsed_table_bands [OF assms pt]
    by (simp add: goes_file_df_fst file_table_def)
  moreover have "rows ?df = filter (band_isin (band_list b)) (rows df0)"
    using rw by (simp add: filter_window_filter)
  ultimately show "\<exists>df. fst (goes_file_df e satellite' product' start' end' (Some b) refresh' w)
                        = Inr df
                      \<and> rows df = filter (band_isin (band_list b)) (rows df0)"
    by blast
qed


theorem band_filter_exact_witness:
  "startswith ''ABI-L1b-RadC'' ''ABI''
   \<and> fst (goes_file_df (store_env demo_store) ''noaa-goes16'' ''ABI-L1b-RadC''
          (stamp 2019 172 17 0 0 0) (stamp 2019 172 19 0 0 0) None True demo_world)
       = Inr (frame [row_C13, row_C02] ''noaa-goes16'' ''ABI-L1b-RadC''
               (stamp 2019 172 17 0 0 0) (stamp 2019 172 19 0 0 0) None)
   \<and> fst (goes_file_df (store_env demo_store) ''noaa-goes16'' ''ABI-L1b-RadC''
          (stamp 2019 172 17 0 0 0) (stamp 2019 172 19 0 0 0) (Some (Band 13)) True demo_world)
       = Inr (frame [row_C13] ''noaa-goes16'' ''ABI-L1b-RadC''
               (stamp 2019 172 17 0 0 0) (stamp 2019 172 19 0 0 0) (Some (Band 13)))
   \<and> list_all (band_isin (band_list (Band 13))) [row_C13]
   \<and> [row_C13] = filter (band_isin (band_list (Band 13))) [row_C13, row_C02]"
proof -
  let ?e = "store_env demo_store"
  let ?lo = "stamp 2019 172 17 0 0 0"
  let ?hi = "stamp 2019 172 19 0 0 0"
  have h0: "startswith ''ABI-L1b-RadC'' ''ABI''"
    by (simp add: startswith_def)
  have h1: "fst (goes_file_df ?e ''noaa-goes16'' ''ABI-L1b-RadC'' ?lo ?hi None True demo_world)
       = Inr (frame [row_C13, row_C02] ''noaa-goes16'' ''ABI-L1b-RadC'' ?lo ?hi None)"
    by code_simp
  have h2: "fst (goes_file_df ?e ''noaa-goes16'' ''ABI-L1b-RadC'' ?lo ?hi (Some (Band 13)) True
                   demo_world)
       = Inr (frame [row_C13] ''noaa-goes16'' ''ABI-L1b-RadC'' ?lo ?hi (Some (Band 13)))"
    by code_simp
  note t = band_filter_exact [OF h0, of ?e "''noaa-goes16''" ?lo ?hi "Band 13" True demo_world]
  from t h2 have c1: "list_all (band_isin (band_list (Band 13))) [row_C13]"
    by (auto simp add: frame_def)
  from t h1 h2 have c2: "[row_C13] = filter (band_isin (band_list (Band 13))) [row_C13, row_C02]"
    by (auto simp add: frame_def)
  from h0 h1 h2 c1 c2 show ?thesis by (intro conjI)
qed

subsection \<open>A band given as a number\<close>

lemma filter_bands_scalar: "filter_bands (Some (Band b)) = filter_bands (Some (Bands [b]))"
  by (rule ext) (simp add: filter_bands_def)

lemma text_table_scalar:
  "text_table e p (Some (Band b)) files = text_table e p (Some (Bands [b])) files"
  by (simp only: text_table_def filter_bands_scalar)

lemma file_table_rows:
  "map_sum id rows (file_table e s p lo hi b r files)
   = map_sum id (filter_window lo hi) (parsed_table e p b files)"
  by (simp add: file_table_def split: sum.split)

lemma goes_file_df_rows:
  "map_sum id rows (fst (goes_file_df e s p lo hi b r w)) =
   (case fst (list_files e s p r (date_range (floor_hour lo) (floor_hour hi)) [] w) of
      Inl x \<Rightarrow> Inl x
    | Inr files \<Rightarrow> map_sum id (filter_window lo hi) (parsed_table e p b files))"
  by (simp add: goes_file_df_fst file_table_rows split: sum.split)

lemma goes_file_df_scalar:
  "map_sum id rows (fst (goes_file_df e s p lo hi (Some (Band b)) r w))
   = map_sum id rows (fst (goes_file_df e s p lo hi (Some (Bands [b])) r w))"
  by (simp only: goes_file_df_rows parsed_table_def text_table_scalar)

lemma candidates_rows:
  "candidates e sat p d b t w =
   (case satellite_number (upper (str sat)) of
      None \<Rightarrow> (Inl (SatelliteNotRecognized (str sat)), w)
    | Some n \<Rightarrow>
        (case map_sum id rows
                (fst (goes_file_df e (''noaa-goes'' @ n)
                        (if d \<in> set [''M1'', ''M2''] then p @ ''M'' else p @ d)
                        (t - hour) (t + hour) b True w)) of
           Inl x \<Rightarrow> Inl x
         | Inr rs \<Rightarrow>
             (case (if d \<in> set [''M1'', ''M2''] then mesoscale (p @ d) rs else Inr rs) of
                Inl x \<Rightarrow> Inl x
              | Inr df1 \<Rightarrow> Inr (map (\<lambda>r. r\<lparr>product := Some p, domain := Some d\<rparr>) df1)),
         snd (goes_file_df e (''noaa-goes'' @ n)
                (if d \<in> set [''M1'', ''M2''] then p @ ''M'' else p @ d)
                (t - hour) (t + hour) b True w)))"
proof (cases "satellite_number (upper (str sat))")
  case None
  then show ?thesis by (simp add: candidates_def)
next
  case (Some n)
  let ?g = "goes_file_df e (''noaa-goes'' @ n)
              (if d \<in> set [''M1'', ''M2''] then p @ ''M'' else p @ d)
              (t - hour) (t + hour) b True w"
  obtain r w1 where g: "?g = (r, w1)" by (cases ?g)
  show ?thesis
  proof (cases r)
    case (Inl x)
    with Some g show ?thesis
      unfolding candidates_def Let_def by simp
  next
    case (Inr df)
    with Some g show ?thesis
      unfolding candidates_def Let_def by (simp split: sum.split)
  qed
qed

lemma candidates_scalar:
  "candidates e sat p d (Some (Band b)) t w = candidates e sat p d (Some (Bands [b])) t w"
  by (simp only: candidates_rows goes_file_df_scalar goes_file_df_snd)

lemma find_rows:
  "map_sum id (map_option rows) (fst (find_goes_dataset m e sat p d b dt w)) =
   (let t = (case dt of None \<Rightarrow> default_datetime m | Some t \<Rightarrow> t)
    in case fst (candidates e sat p d b t w) of
         Inl x \<Rightarrow> Inl x
       | Inr df \<Rightarrow>
           (case nearest_rows t df of
              Inl x \<Rightarrow> Inl x
            | Inr df2 \<Rightarrow> if length df2 = 0 then Inr None else Inr (Some df2)))"
  unfolding find_goes_dataset_def Let_def
  by (simp split: prod.split sum.split)

lemma find_world:
  "snd (find_goes_dataset m e sat p d b dt w) =
   (let t = (case dt of None \<Rightarrow> default_datetime m | Some t \<Rightarrow> t);
        w1 = snd (candidates e sat p d b t w)
    in case fst (candidates e sat p d b t w) of
         Inl x \<Rightarrow> w1
       | Inr df \<Rightarrow>
           (case nearest_rows t df of
              Inl x \<Rightarrow> w1
            | Inr df2 \<Rightarrow>
                if length df2 = 0 then w1\<lparr>stdout := stdout w1 @ [''No data....'']\<rparr> else w1))"
  unfolding find_goes_dataset_def Let_def
  by (simp split: prod.split sum.split)

text \<open>
  C10, as the code has it. A band given as a number \<open>b\<close> and the list \<open>[b]\<close> give both
  functions the same rows or the same exception, and the same effects. The tables are not
  equal: \<^verbatim>\<open>attrs\<close> holds the argument as it was passed.
\<close>

theorem scalar_band_same_rows:
  "map_sum id rows (fst (goes_file_df e satellite' product' start' end' (Some (Band b)) refresh' w))
     = map_sum id rows
         (fst (goes_file_df e satellite' product' start' end' (Some (Bands [b])) refresh' w))
   \<and> snd (goes_file_df e satellite' product' start' end' (Some (Band b)) refresh' w)
     = snd (goes_file_df e satellite' product' start' end' (Some (Bands [b])) refresh' w)
   \<and> map_sum id (map_option rows)
       (fst (find_goes_dataset m e sat product' domain' (Some (Band b)) datetime_arg w))
     = map_sum id (map_option rows)
         (fst (find_goes_dataset m e sat product' domain' (Some (Bands [b])) datetime_arg w))
   \<and> snd (find_goes_dataset m e sat product' domain' (Some (Band b)) datetime_arg w)
     = snd (find_goes_dataset m e sat product' domain' (Some (Bands [b])) datetime_arg w)"
  by (simp only: goes_file_df_scalar goes_file_df_snd find_rows find_world candidates_scalar
        simp_thms)

text \<open>
  C10 as stated fails: the two results differ in \<^verbatim>\<open>attrs["bands"]\<close>.
\<close>

theorem scalar_band_attrs_counterexample:
  "fst (goes_file_df (store_env demo_store) ''noaa-goes16'' ''ABI-L1b-RadC''
          (stamp 2019 172 17 0 0 0) (stamp 2019 172 19 0 0 0) (Some (Band 13)) True demo_world)
     = Inr (frame [row_C13] ''noaa-goes16'' ''ABI-L1b-RadC''
              (stamp 2019 172 17 0 0 0) (stamp 2019 172 19 0 0 0) (Some (Band 13)))
   \<and> fst (goes_file_df (store_env demo_store) ''noaa-goes16'' ''ABI-L1b-RadC''
          (stamp 2019 172 17 0 0 0) (stamp 2019 172 19 0 0 0) (Some (Bands [13])) True demo_world)
     = Inr (frame [row_C13] ''noaa-goes16'' ''ABI-L1b-RadC''
              (stamp 2019 172 17 0 0 0) (stamp 2019 172 19 0 0 0) (Some (Bands [13])))
   \<and> fst (goes_file_df (store_env demo_store) ''noaa-goes16'' ''ABI-L1b-RadC''
          (stamp 2019 172 17 0 0 0) (stamp 2019 172 19 0 0 0) (Some (Band 13)) True demo_world)
     \<noteq> fst (goes_file_df (store_env demo_store) ''noaa-goes16'' ''ABI-L1b-RadC''
          (stamp 2019 172 17 0 0 0) (stamp 2019 172 19 0 0 0) (Some (Bands [13])) True demo_world)"
  by code_simp

subsection \<open>The nearest label of a sorted index\<close>

lemma sorted_filter_prefix:
  fixes vs :: "int list"
  assumes "sorted vs" and down: "\<And>x y. x \<le> y \<Longrightarrow> P y \<Longrightarrow> P x"
  shows "filter P vs = takeWhile P vs"
  using assms(1)
proof (induction vs)
  case Nil
  then show ?case by simp
next
  case (Cons x xs)
  show ?case
  proof (cases "P x")
    case True
    with Cons show ?thesis by simp
  next
    case False
    have "\<not> P y" if "y \<in> set xs" for y
      using Cons.prems that False down [of x y] by auto
    then have "filter P xs = []" by (simp add: filter_empty_conv)
    with False show ?thesis by simp
  qed
qed

lemma sorted_filter_index:
  fixes vs :: "int list"
  assumes "sorted vs" and down: "\<And>x y. x \<le> y \<Longrightarrow> P y \<Longrightarrow> P x" and j: "j < length vs"
  shows "P (vs ! j) \<longleftrightarrow> j < length (filter P vs)"
proof -
  let ?k = "length (takeWhile P vs)"
  have eq: "filter P vs = takeWhile P vs"
    using assms(1) down by (rule sorted_filter_prefix)
  show ?thesis
  proof
    assume p: "P (vs ! j)"
    show "j < length (filter P vs)"
    proof (rule ccontr)
      assume "\<not> j < length (filter P vs)"
      then have kj: "?k \<le> j" by (simp add: eq)
      with j have "?k < length vs" by simp
      then have "\<not> P (vs ! ?k)" by (rule nth_length_takeWhile)
      moreover have "vs ! ?k \<le> vs ! j"
        using assms(1) kj j by (rule sorted_nth_mono)
      ultimately show False using down p by blast
    qed
  next
    assume "j < length (filter P vs)"
    then have jk: "j < ?k" by (simp add: eq)
    then have "takeWhile P vs ! j = vs ! j" by (rule takeWhile_nth)
    moreover have "takeWhile P vs ! j \<in> set (takeWhile P vs)"
      using jk by simp
    ultimately show "P (vs ! j)" by (metis set_takeWhileD)
  qed
qed

lemma np_index_nat: "i < length xs \<Longrightarrow> np_index xs (int i) = Some (xs ! i)"
  by (simp add: np_index_def)

lemma np_index_last: "xs \<noteq> [] \<Longrightarrow> np_index xs (- 1) = Some (xs ! (length xs - 1))"
  by (cases xs) (simp_all add: np_index_def Let_def nat_diff_distrib')

lemma int_pred: "0 < n \<Longrightarrow> int (n - 1) = int n - 1" "0 < n \<Longrightarrow> int (n - Suc 0) = int n - 1"
  by (cases n; simp)+

lemma get_indexer_nearest_spec:
  assumes s: "sorted vs" and ne: "vs \<noteq> []"
  shows "\<exists>i<length vs. get_indexer_nearest vs t = Some (int i)
           \<and> (\<forall>j<length vs. \<bar>t - vs ! i\<bar> \<le> \<bar>t - vs ! j\<bar>)
           \<and> (\<forall>j<length vs. \<bar>t - vs ! j\<bar> = \<bar>t - vs ! i\<bar> \<longrightarrow> vs ! j \<le> vs ! i)"
proof -
  let ?n = "length vs"
  let ?k = "length (filter (\<lambda>v. v \<le> t) vs)"
  let ?k' = "length (filter (\<lambda>v. v < t) vs)"
  have n: "0 < ?n" using ne by simp
  have le: "vs ! j \<le> t \<longleftrightarrow> j < ?k" if "j < ?n" for j
    using s _ that by (rule sorted_filter_index) simp
  have less: "vs ! j < t \<longleftrightarrow> j < ?k'" if "j < ?n" for j
    using s _ that by (rule sorted_filter_index) simp
  have mono: "vs ! i \<le> vs ! j" if "i \<le> j" "j < ?n" for i j
    using s that by (rule sorted_nth_mono)
  have k: "?k \<le> ?n" "?k' \<le> ?n" by simp_all
  have pad: "pad_indexer vs t = int ?k - 1" by (simp add: pad_indexer_def)
  show ?thesis
  proof (cases "?k' < ?n")
    case False
    with k have k': "?k' = ?n" by linarith
    then have allless: "vs ! j < t" if "j < ?n" for j using less that by simp
    have "?k = ?n"
    proof (rule ccontr)
      assume "?k \<noteq> ?n"
      with k have "?k < ?n" by linarith
      with le [of ?k] allless [of ?k] show False by simp
    qed
    then have left: "pad_indexer vs t = int (?n - 1)" using int_pred(1) [OF n] pad by simp
    have right: "backfill_indexer vs t = - 1" using False by (simp add: backfill_indexer_def)
    have g: "get_indexer_nearest vs t = Some (int (?n - 1))"
      using ne n unfolding get_indexer_nearest_def Let_def right left
      by (simp add: difference_compat_def np_index_nat np_index_last)
    have "\<bar>t - vs ! (?n - 1)\<bar> \<le> \<bar>t - vs ! j\<bar> \<and> vs ! j \<le> vs ! (?n - 1)" if "j < ?n" for j
      using allless [OF that] allless [of "?n - 1"] mono [of j "?n - 1"] that n by simp
    with g n show ?thesis by (intro exI [of _ "?n - 1"]) (simp add: int_pred)
  next
    case True
    then have right: "backfill_indexer vs t = int ?k'" by (simp add: backfill_indexer_def)
    have r: "t \<le> vs ! ?k'" using less [OF True] by simp
    have k'k: "?k' \<le> ?k"
    proof (rule ccontr)
      assume "\<not> ?k' \<le> ?k"
      then have a: "?k < ?k'" by simp
      with k have "?k < ?n" by linarith
      with less [of ?k] le [of ?k] a show False by simp
    qed
    show ?thesis
    proof (cases "?k = 0")
      case True
      with k'k have k'0: "?k' = 0" by simp
      have allgt: "t < vs ! j" if "j < ?n" for j using le [OF that] True by simp
      have left: "pad_indexer vs t = - 1" using pad True by simp
      have "\<not> \<bar>t - vs ! (?n - 1)\<bar> < \<bar>t - vs ! 0\<bar>"
        using allgt [of 0] allgt [of "?n - 1"] mono [of 0 "?n - 1"] n by simp
      then have g: "get_indexer_nearest vs t = Some (int 0)"
        using ne n unfolding get_indexer_nearest_def Let_def right left k'0
        by (simp add: difference_compat_def np_index_last np_index_nat [of 0, simplified])
      have "\<bar>t - vs ! 0\<bar> \<le> \<bar>t - vs ! j\<bar>
            \<and> (\<bar>t - vs ! j\<bar> = \<bar>t - vs ! 0\<bar> \<longrightarrow> vs ! j \<le> vs ! 0)" if "j < ?n" for j
        using allgt [OF that] allgt [of 0] mono [of 0 j] that n by auto
      with g n show ?thesis by (intro exI [of _ 0]) simp
    next
      case False
      then have kpos: "0 < ?k" by simp
      then have k1: "?k - 1 < ?n" using k by linarith
      have left: "pad_indexer vs t = int (?k - 1)" using pad int_pred(1) [OF kpos] by simp
      have l: "vs ! (?k - 1) \<le> t" using le [OF k1] kpos by simp
      have lo: "vs ! j \<le> vs ! (?k - 1)" if "j < ?k" for j
        using mono [of j "?k - 1"] that k1 by simp
      have hi: "vs ! ?k' \<le> vs ! j" if "?k' \<le> j" "j < ?n" for j
        using mono [of ?k' j] that by simp
      have dist: "\<bar>t - vs ! (?k - 1)\<bar> \<le> \<bar>t - vs ! j\<bar> \<or> \<bar>t - vs ! ?k'\<bar> \<le> \<bar>t - vs ! j\<bar>"
        if "j < ?n" for j
      proof (cases "j < ?k")
        case True
        with lo [OF True] le [OF that] l show ?thesis by simp
      next
        case False
        then have "\<not> vs ! j \<le> t" using le [OF that] by simp
        then have "\<not> vs ! j < t" by simp
        then have "?k' \<le> j" using less [OF that] by simp
        from hi [OF this that] r show ?thesis by simp
      qed
      show ?thesis
      proof (cases "\<bar>t - vs ! (?k - 1)\<bar> < \<bar>t - vs ! ?k'\<bar>")
        case True
        then have g: "get_indexer_nearest vs t = Some (int (?k - 1))"
          using ne \<open>?k' < ?n\<close> k1 unfolding get_indexer_nearest_def Let_def right left
          by (simp add: difference_compat_def np_index_nat)
        have "\<bar>t - vs ! (?k - 1)\<bar> \<le> \<bar>t - vs ! j\<bar>
              \<and> (\<bar>t - vs ! j\<bar> = \<bar>t - vs ! (?k - 1)\<bar> \<longrightarrow> vs ! j \<le> vs ! (?k - 1))"
          if "j < ?n" for j
        proof (cases "j < ?k")
          case True
          with lo [OF True] le [OF that] l show ?thesis by simp
        next
          case False
          then have "\<not> vs ! j \<le> t" using le [OF that] by simp
          then have gt: "t < vs ! j" by simp
          then have "?k' \<le> j" using less [OF that] by simp
          from hi [OF this that] r gt True l show ?thesis by simp
        qed
        with g k1 kpos show ?thesis by (intro exI [of _ "?k - 1"]) (simp add: int_pred)
      next
        case False
        then have g: "get_indexer_nearest vs t = Some (int ?k')"
          using ne \<open>?k' < ?n\<close> k1 unfolding get_indexer_nearest_def Let_def right left
          by (simp add: difference_compat_def np_index_nat)
        have "\<bar>t - vs ! ?k'\<bar> \<le> \<bar>t - vs ! j\<bar>
              \<and> (\<bar>t - vs ! j\<bar> = \<bar>t - vs ! ?k'\<bar> \<longrightarrow> vs ! j \<le> vs ! ?k')"
          if "j < ?n" for j
        proof (cases "j < ?k'")
          case True
          then have lt: "vs ! j < t" using less [OF that] by simp
          from True k'k have "j < ?k" by simp
          from lo [OF this] lt l r False show ?thesis by simp
        next
          case False
          then have "?k' \<le> j" by simp
          from hi [OF this that] r show ?thesis by simp
        qed
        with g \<open>?k' < ?n\<close> show ?thesis by (intro exI [of _ ?k']) simp
      qed
    qed
  qed
qed


lemma in_set_nonempty: "x \<in> set xs \<Longrightarrow> xs \<noteq> []"
  by auto

lemma nearest_rows_empty: "nearest_rows t [] = Inl IndexError"
  by (simp add: nearest_rows_def get_indexer_nearest_def pad_indexer_def np_index_def)

lemma nearest_rows_nonempty:
  assumes "df \<noteq> []"
  shows "\<exists>nt out. nearest_rows t df = Inr out \<and> out \<noteq> []
           \<and> out = filter (\<lambda>r. start r = nt) (sort_key start df)
           \<and> (\<forall>c\<in>set df. \<bar>t - nt\<bar> \<le> \<bar>t - start c\<bar>)
           \<and> (\<forall>c\<in>set df. \<bar>t - start c\<bar> = \<bar>t - nt\<bar> \<longrightarrow> start c \<le> nt)"
proof -
  let ?df1 = "sort_key start df"
  let ?u = "remdups (map start ?df1)"
  have su: "sorted ?u" by (simp add: sorted_remdups)
  have setu: "set ?u = start ` set df" by simp
  with assms have ne: "?u \<noteq> []" by (metis empty_is_image set_empty)
  from get_indexer_nearest_spec [OF su ne, of t] obtain i where
    i: "i < length ?u" and g: "get_indexer_nearest ?u t = Some (int i)"
    and mn: "\<And>j. j < length ?u \<Longrightarrow> \<bar>t - ?u ! i\<bar> \<le> \<bar>t - ?u ! j\<bar>"
    and tie: "\<And>j. j < length ?u \<Longrightarrow> \<bar>t - ?u ! j\<bar> = \<bar>t - ?u ! i\<bar> \<Longrightarrow> ?u ! j \<le> ?u ! i"
    by blast
  let ?nt = "?u ! i"
  let ?out = "filter (\<lambda>r. start r = ?nt) ?df1"
  have nr: "nearest_rows t df = Inr ?out"
    unfolding nearest_rows_def Let_def g by (simp add: np_index_nat [OF i])
  have "?nt \<in> set ?u" using i by (rule nth_mem)
  then obtain c where "c \<in> set df" "start c = ?nt" using setu by auto
  then have "c \<in> set ?out" by simp
  then have outne: "?out \<noteq> []" by (rule in_set_nonempty)
  have idx: "\<exists>j<length ?u. ?u ! j = start c" if "c \<in> set df" for c
  proof -
    from that setu have "start c \<in> set ?u" by blast
    then show ?thesis by (simp only: in_set_conv_nth)
  qed
  have p1: "\<forall>c\<in>set df. \<bar>t - ?nt\<bar> \<le> \<bar>t - start c\<bar>"
    using idx mn by metis
  have p2: "\<forall>c\<in>set df. \<bar>t - start c\<bar> = \<bar>t - ?nt\<bar> \<longrightarrow> start c \<le> ?nt"
    using idx tie by metis
  from nr outne p1 p2 show ?thesis by blast
qed

text \<open>
  C4, as the code has it. When the candidate rows (lines 129-163) are not empty,
  \<open>find_goes_dataset\<close> returns a table, not None and not an exception. Its rows are the
  candidates whose \<open>start\<close> is one time, the nearest time; no candidate is nearer to the
  target than the nearest time; and a candidate as near as the nearest time starts at or
  before it: of two times at the same distance from the target the later one is taken, and
  the rows of the earlier one are not returned.
\<close>

theorem nearest_time_selection:
  assumes "t = (case datetime_arg of None \<Rightarrow> default_datetime m | Some d \<Rightarrow> d)"
    and "candidates e satellite' product' domain' bands' t w = (Inr df, w1)"
    and "df \<noteq> []"
  shows "\<exists>out nearest_time.
           find_goes_dataset m e satellite' product' domain' bands' datetime_arg w
             = (Inr (Some out), w1)
         \<and> rows out \<noteq> []
         \<and> mset (rows out) = mset (filter (\<lambda>c. start c = nearest_time) df)
         \<and> (\<forall>c\<in>set df. \<bar>t - nearest_time\<bar> \<le> \<bar>t - start c\<bar>)
         \<and> (\<forall>c\<in>set df. \<bar>t - start c\<bar> = \<bar>t - nearest_time\<bar> \<longrightarrow> start c \<le> nearest_time)"
proof -
  from nearest_rows_nonempty [OF assms(3), of t] obtain nt out where
    nr: "nearest_rows t df = Inr out" and ne: "out \<noteq> []"
    and out: "out = filter (\<lambda>r. start r = nt) (sort_key start df)"
    and p1: "\<forall>c\<in>set df. \<bar>t - nt\<bar> \<le> \<bar>t - start c\<bar>"
    and p2: "\<forall>c\<in>set df. \<bar>t - start c\<bar> = \<bar>t - nt\<bar> \<longrightarrow> start c \<le> nt"
    by blast
  let ?res = "\<lparr>rows = out,
               attrs = \<lparr>arg_satellite = satellite', arg_product = product',
                        arg_domain = domain', arg_bands = bands', arg_datetime = t\<rparr>\<rparr>"
  have f: "find_goes_dataset m e satellite' product' domain' bands' datetime_arg w
             = (Inr (Some ?res), w1)"
    using assms(1,2) nr ne unfolding find_goes_dataset_def Let_def by simp
  have "mset out = mset (filter (\<lambda>c. start c = nt) df)"
    unfolding out by (simp only: sort_key_stable)
  with f ne p1 p2 show ?thesis
    by (intro exI [of _ ?res] exI [of _ nt]) simp
qed


theorem nearest_time_selection_witness:
  "stamp 2019 172 18 4 24 600000000
     = (case Some (stamp 2019 172 18 4 24 600000000) of
          None \<Rightarrow> default_datetime (import_met4450 demo_world) | Some d \<Rightarrow> d)
   \<and> candidates (store_env demo_store) (SatInt 16) ''ABI-L2-MCMIP'' ''C'' None
         (stamp 2019 172 18 4 24 600000000) demo_world
       = (Inr [matched row_A, matched row_B], listed_hours demo_world 18)
   \<and> [matched row_A, matched row_B] \<noteq> []
   \<and> (\<exists>out nearest_time.
           find_goes_dataset (import_met4450 demo_world) (store_env demo_store) (SatInt 16)
               ''ABI-L2-MCMIP'' ''C'' None (Some (stamp 2019 172 18 4 24 600000000)) demo_world
             = (Inr (Some out), listed_hours demo_world 18)
         \<and> rows out \<noteq> []
         \<and> mset (rows out)
             = mset (filter (\<lambda>c. start c = nearest_time) [matched row_A, matched row_B])
         \<and> (\<forall>c\<in>set [matched row_A, matched row_B].
               \<bar>stamp 2019 172 18 4 24 600000000 - nearest_time\<bar>
                 \<le> \<bar>stamp 2019 172 18 4 24 600000000 - start c\<bar>)
         \<and> (\<forall>c\<in>set [matched row_A, matched row_B].
               \<bar>stamp 2019 172 18 4 24 600000000 - start c\<bar>
                 = \<bar>stamp 2019 172 18 4 24 600000000 - nearest_time\<bar>
               \<longrightarrow> start c \<le> nearest_time))"
proof -
  have h1: "stamp 2019 172 18 4 24 600000000
     = (case Some (stamp 2019 172 18 4 24 600000000) of
          None \<Rightarrow> default_datetime (import_met4450 demo_world) | Some d \<Rightarrow> d)"
    by simp
  have h2: "candidates (store_env demo_store) (SatInt 16) ''ABI-L2-MCMIP'' ''C'' None
         (stamp 2019 172 18 4 24 600000000) demo_world
       = (Inr [matched row_A, matched row_B], listed_hours demo_world 18)"
    by code_simp
  have h3: "[matched row_A, matched row_B] \<noteq> []"
    by simp
  from h1 h2 h3 nearest_time_selection [OF h1 h2 h3] show ?thesis
    by (intro conjI)
qed

text \<open>
  C4 as stated fails: the target 18:04:24.7 is as far from the start of scan A as from the
  start of scan B, both rows minimize the distance, and only the row of B is returned.
\<close>

theorem equidistant_row_dropped_counterexample:
  "fst (candidates (store_env demo_store) (SatInt 16) ''ABI-L2-MCMIP'' ''C'' None
          (stamp 2019 172 18 4 24 700000000) demo_world)
     = Inr [matched row_A, matched row_B]
   \<and> fst (find_goes_dataset (import_met4450 demo_world) (store_env demo_store) (SatInt 16)
            ''ABI-L2-MCMIP'' ''C'' None (Some (stamp 2019 172 18 4 24 700000000)) demo_world)
     = Inr (Some (match_frame [matched row_B] (stamp 2019 172 18 4 24 700000000)))
   \<and> \<bar>stamp 2019 172 18 4 24 700000000 - start (matched row_A)\<bar>
     = \<bar>stamp 2019 172 18 4 24 700000000 - start (matched row_B)\<bar>
   \<and> matched row_A \<notin> set [matched row_B]"
  by code_simp

subsection \<open>No row left\<close>

lemma find_zero_rows_raises:
  assumes "t = (case datetime_arg of None \<Rightarrow> default_datetime m | Some d \<Rightarrow> d)"
    and "candidates e satellite' product' domain' bands' t w = (Inr [], w1)"
  shows "find_goes_dataset m e satellite' product' domain' bands' datetime_arg w
           = (Inl IndexError, w1)"
  using assms unfolding find_goes_dataset_def Let_def
  by (simp add: nearest_rows_empty)

lemma find_never_None:
  "fst (find_goes_dataset m e satellite' product' domain' bands' datetime_arg w) \<noteq> Inr None"
proof -
  let ?t = "case datetime_arg of None \<Rightarrow> default_datetime m | Some d \<Rightarrow> d"
  obtain r w1 where c: "candidates e satellite' product' domain' bands' ?t w = (r, w1)"
    by (cases "candidates e satellite' product' domain' bands' ?t w")
  show ?thesis
  proof (cases r)
    case (Inl x)
    with c show ?thesis unfolding find_goes_dataset_def Let_def by simp
  next
    case (Inr df)
    show ?thesis
    proof (cases "df = []")
      case True
      have "find_goes_dataset m e satellite' product' domain' bands' datetime_arg w
              = (Inl IndexError, w1)"
        by (rule find_zero_rows_raises [OF refl]) (use c Inr True in simp)
      then show ?thesis by simp
    next
      case False
      from nearest_rows_nonempty [OF False, of ?t] obtain out where
        "nearest_rows ?t df = Inr out" "out \<noteq> []"
        by blast
      with c Inr show ?thesis unfolding find_goes_dataset_def Let_def by simp
    qed
  qed
qed

text \<open>
  C2 fails on the code. For the target 19:30 the store lists scans A and B under the hour
  18, both outside the window from 18:30 to 20:30: the filtering leaves no row, and the
  call ends with the IndexError of line 170, not with None, and prints nothing. The test of
  line 176 is never reached with a table of no rows (\<open>find_never_None\<close>).
\<close>

theorem zero_rows_raises_index_error:
  "candidates (store_env demo_store) (SatInt 16) ''ABI-L2-MCMIP'' ''C'' None
       (stamp 2019 172 19 30 0 0) demo_world
     = (Inr [], listed_hours demo_world 19)
   \<and> find_goes_dataset (import_met4450 demo_world) (store_env demo_store) (SatInt 16)
       ''ABI-L2-MCMIP'' ''C'' None (Some (stamp 2019 172 19 30 0 0)) demo_world
     = (Inl IndexError, listed_hours demo_world 19)
   \<and> stdout (listed_hours demo_world 19) = []"
  by code_simp

subsection \<open>The default of \<^verbatim>\<open>datetime\<close>\<close>

lemma default_datetime_is_import_clock:
  "find_goes_dataset (import_met4450 w0) e satellite' product' domain' bands' None w
   = find_goes_dataset (import_met4450 w0) e satellite' product' domain' bands' (Some (clock w0)) w"
  by (simp add: find_goes_dataset_def import_met4450_def)

text \<open>
  C7 fails on the code. The module is loaded at 12:00 and \<open>find_goes_dataset\<close> is called at
  18:05 without \<^verbatim>\<open>datetime\<close>: the call looks around 12:00, lists the hours 11 to 13 and
  finds no file, while a call with the time of the call as \<^verbatim>\<open>datetime\<close> finds scan B.
\<close>

theorem default_datetime_fixed_at_import:
  "find_goes_dataset (import_met4450 demo_world) (store_env demo_store) (SatInt 16)
       ''ABI-L2-MCMIP'' ''C'' None None later_world
     = (Inl NoFilesFound, listed_hours later_world 12)
   \<and> find_goes_dataset (import_met4450 demo_world) (store_env demo_store) (SatInt 16)
       ''ABI-L2-MCMIP'' ''C'' None (Some (clock later_world)) later_world
     = (Inr (Some (match_frame [matched row_B] (stamp 2019 172 18 5 0 0))),
        listed_hours later_world 18)"
  by code_simp

end
